theory Spec2Isabelle
  imports Complex_Main
begin

section \<open>Python values used by the two scripts\<close>

text \<open>
  Both scripts (\<^verbatim>\<open>app.py\<close> and \<^verbatim>\<open>app5.py\<close>) are sequential glue around external
  services. Exceptions are values: an exception is its class together with the text that
  \<^verbatim>\<open>str(e)\<close> gives, because the scripts print that text in their messages.
\<close>

datatype exn_class =
  IndexError | KeyError | NameError | TypeError | ValueError
  | NoTranscriptFound | TranscriptsDisabled | VideoUnavailable
  | HttpError | OtherException

datatype exn = Exn (exn_cls: exn_class) (exn_str: string)

text \<open>
  \<^verbatim>\<open>s.split("=")\<close>: the pieces of \<open>s\<close> between the occurrences of the separator.
  The result is never empty; a string without the separator is its own single piece.
\<close>

fun py_split :: "char \<Rightarrow> string \<Rightarrow> string list" where
  "py_split c [] = [[]]"
| "py_split c (x # xs) =
     (if x = c then [] # py_split c xs
      else (case py_split c xs of
              [] \<Rightarrow> [[x]]
            | w # ws \<Rightarrow> (x # w) # ws))"

text \<open>
  \<^verbatim>\<open>xs[i]\<close>: a negative index counts from the end, an index out of range raises
  \<^verbatim>\<open>IndexError\<close>.
\<close>

definition py_getitem :: "'a list \<Rightarrow> int \<Rightarrow> exn + 'a" where
  "py_getitem xs i =
     (if 0 \<le> i \<and> i < int (length xs) then Inr (xs ! nat i)
      else if i < 0 \<and> - int (length xs) \<le> i then Inr (xs ! nat (int (length xs) + i))
      else Inl (Exn IndexError ''list index out of range''))"

text \<open>\<^verbatim>\<open>sep.join(xs)\<close>: the strings of \<open>xs\<close> in order, \<open>sep\<close> between neighbours.\<close>

fun py_join :: "string \<Rightarrow> string list \<Rightarrow> string" where
  "py_join sep [] = []"
| "py_join sep [x] = x"
| "py_join sep (x # y # ys) = x @ sep @ py_join sep (y # ys)"

text \<open>
  The expression \<^verbatim>\<open>youtube_video_url.split("=")[1]\<close>, which both scripts use at every
  place where they need the video identifier.
\<close>

definition split_video_id :: "string \<Rightarrow> exn + string" where
  "split_video_id youtube_video_url = py_getitem (py_split CHR ''='' youtube_video_url) 1"

text \<open>
  A caption segment as the transcript service returns it. Only the \<^verbatim>\<open>text\<close> field is
  read; start time and duration are carried along untouched.
\<close>

record segment =
  seg_text :: string
  seg_start :: real
  seg_duration :: real

text \<open>\<^verbatim>\<open>" ".join([entry["text"] for entry in transcript_text])\<close>\<close>

definition join_transcript :: "segment list \<Rightarrow> string" where
  "join_transcript transcript_text = py_join '' '' (map seg_text transcript_text)"

text \<open>
  The specification's two descriptions of the identifier. The first is the text after the
  first \<open>=\<close>; the second is the code's own expression, \<open>split_video_id\<close>.
\<close>

definition after_first_eq :: "string \<Rightarrow> string" where
  "after_first_eq url = tl (dropWhile (\<lambda>c. c \<noteq> CHR ''='') url)"

text \<open>
  The specification's description of the transcript text: the first segment's text, then
  for each later segment one space and its text, in the order received.
\<close>

definition spaced_texts :: "segment list \<Rightarrow> string" where
  "spaced_texts segs =
     (case segs of
        [] \<Rightarrow> []
      | s # rest \<Rightarrow> seg_text s @ concat (map (\<lambda>e. '' '' @ seg_text e) rest))"

definition seg :: "string \<Rightarrow> segment" where
  "seg t = \<lparr>seg_text = t, seg_start = 0, seg_duration = 0\<rparr>"


section \<open>Effects: what a run shows and whom it calls\<close>

text \<open>
  A run of a piece of script yields the events it caused, in order, and either the
  exception that ended it or its value. Events are the Streamlit and logging calls and
  the requests to the remote services (with the argument sent).
\<close>

datatype event =
    St_title string
  | St_text_input string
  | St_button string
  | St_image string
  | St_warning string
  | St_error string
  | St_markdown string
  | St_write string
  | Logging_error string
  | Call_get_transcript string "string list option"
  | Call_generate_content string
  | Call_videos_list string
  | Call_comment_threads_list string

type_synonym 'a run = "event list \<times> (exn + 'a)"

definition ret :: "'a \<Rightarrow> 'a run" where
  "ret x = ([], Inr x)"

definition lift :: "exn + 'a \<Rightarrow> 'a run" where
  "lift r = ([], r)"

definition emit :: "event \<Rightarrow> unit run" where
  "emit ev = ([ev], Inr ())"

definition call :: "event \<Rightarrow> exn + 'a \<Rightarrow> 'a run" where
  "call ev r = ([ev], r)"

definition emits :: "event list \<Rightarrow> unit run" where
  "emits evs = (evs, Inr ())"

text \<open>The payloads sent to the summarization service during a run, in order.\<close>

fun payloads :: "event list \<Rightarrow> string list" where
  "payloads [] = []"
| "payloads (Call_generate_content p # evs) = p # payloads evs"
| "payloads (_ # evs) = payloads evs"

text \<open>Sequencing: an exception in the first part skips the rest.\<close>

definition and_then :: "'a run \<Rightarrow> ('a \<Rightarrow> 'b run) \<Rightarrow> 'b run" where
  "and_then m f =
     (case m of
        (evs, Inl e) \<Rightarrow> (evs, Inl e)
      | (evs, Inr x) \<Rightarrow> (case f x of (evs', r) \<Rightarrow> (evs @ evs', r)))"

text \<open>
  \<^verbatim>\<open>try: m  except ...: h\<close>. The handler receives the exception and decides by its
  class; an exception raised inside the handler leaves the statement.
\<close>

definition try_except :: "'a run \<Rightarrow> (exn \<Rightarrow> 'a run) \<Rightarrow> 'a run" where
  "try_except m h =
     (case m of
        (evs, Inl e) \<Rightarrow> (case h e of (evs', r) \<Rightarrow> (evs @ evs', r))
      | (evs, Inr x) \<Rightarrow> (evs, Inr x))"

text \<open>Reading a variable that may not have been assigned.\<close>

definition read_var :: "string \<Rightarrow> 'a option \<Rightarrow> exn + 'a" where
  "read_var name v =
     (case v of
        None \<Rightarrow> Inl (Exn NameError (''name '' @ [CHR 0x27] @ name @ [CHR 0x27] @ '' is not defined''))
      | Some x \<Rightarrow> Inr x)"

text \<open>Subscripting a value that may be \<^verbatim>\<open>None\<close>.\<close>

definition subscript :: "'a option \<Rightarrow> exn + 'a" where
  "subscript v =
     (case v of
        None \<Rightarrow> Inl (Exn TypeError
          ([CHR 0x27] @ ''NoneType'' @ [CHR 0x27] @ '' object is not subscriptable''))
      | Some d \<Rightarrow> Inr d)"

text \<open>\<^verbatim>\<open>d[k]\<close> on a dictionary: a missing key raises \<^verbatim>\<open>KeyError\<close>.\<close>

definition dict_getitem :: "(string \<rightharpoonup> 'v) \<Rightarrow> string \<Rightarrow> exn + 'v" where
  "dict_getitem d k =
     (case d k of
        None \<Rightarrow> Inl (Exn KeyError ([CHR 0x27] @ k @ [CHR 0x27]))
      | Some v \<Rightarrow> Inr v)"

text \<open>\<^verbatim>\<open>xs[:n]\<close>: the first \<open>n\<close> elements; a negative \<open>n\<close> drops the last \<open>-n\<close>.\<close>

definition py_slice_to :: "'a list \<Rightarrow> int \<Rightarrow> 'a list" where
  "py_slice_to xs n = (if n < 0 then take (nat (int (length xs) + n)) xs else take (nat n) xs)"

text \<open>\<^verbatim>\<open>str(n)\<close> for an integer, as the f-strings print it.\<close>

function str_of_nat :: "nat \<Rightarrow> string" where
  "str_of_nat n =
     (if n < 10 then [''0123456789'' ! n]
      else str_of_nat (n div 10) @ [''0123456789'' ! (n mod 10)])"
  by pat_completeness auto
termination
  by (relation "measure id") auto

definition str_of_int :: "int \<Rightarrow> string" where
  "str_of_int i = (if i < 0 then ''-'' @ str_of_nat (nat (- i)) else str_of_nat (nat i))"

section \<open>The external services\<close>

text \<open>
  A token of the NLP pipeline with the two flags the script reads.
\<close>

record token =
  tok_text :: string
  is_alpha :: bool
  is_stop :: bool

text \<open>
  One item of the platform's \<^verbatim>\<open>videos().list\<close> response. The parts \<^verbatim>\<open>snippet\<close> and
  \<^verbatim>\<open>statistics\<close> are the ones requested; inside them any key may be missing. A statistic
  that is present is kept as what \<^verbatim>\<open>int(...)\<close> makes of it: the integer, or the exception
  \<^verbatim>\<open>int\<close> raises on it.
\<close>

record video_item =
  snippet :: "string \<rightharpoonup> string"
  statistics :: "string \<rightharpoonup> exn + int"

text \<open>
  One item of the \<^verbatim>\<open>commentThreads().list\<close> response; the script reads
  \<^verbatim>\<open>item["snippet"]["topLevelComment"]["snippet"]["textOriginal"]\<close> only.
\<close>

record comment_thread =
  textOriginal :: string

text \<open>
  Everything outside the repository that the scripts call. The sentiment scores are
  TextBlob's polarity and subjectivity; they are finite numbers that the script only
  compares with zero, so they are modelled as reals.

  The second argument of \<open>get_transcript\<close> is the \<^verbatim>\<open>languages\<close> argument of the call;
  \<open>None\<close> is a call that passes none. The library declares
  \<^verbatim>\<open>get_transcript(video_id, languages=('en',), ...)\<close>, so it answers such a call as it
  answers \<^verbatim>\<open>languages=['en']\<close>.

  \<open>hash_rank\<close> stands for the interpreter's string hashing: \<^verbatim>\<open>list(set(xs))\<close> lists the
  distinct elements of \<open>xs\<close> in an order that Python does not fix, here by rank.
\<close>

record services =
  get_transcript :: "string \<Rightarrow> string list option \<Rightarrow> exn + segment list"
  generate_content :: "string \<Rightarrow> exn + string"
  nlp :: "string \<Rightarrow> exn + token list"
  textblob_sentiment :: "string \<Rightarrow> real \<times> real"
  videos_list :: "string \<Rightarrow> exn + video_item list"
  comment_threads_list :: "string \<Rightarrow> exn + comment_thread list"
  hash_rank :: "string \<Rightarrow> nat"

text \<open>
  \<^verbatim>\<open>list(set(xs))\<close>: each distinct element of \<open>xs\<close> once, in the order of the ranks.
  Every order of the distinct elements is the order of some rank.
\<close>

definition list_of_set :: "(string \<Rightarrow> nat) \<Rightarrow> string list \<Rightarrow> string list" where
  "list_of_set rank xs = sort_key rank (remdups xs)"

section \<open>app5.py\<close>

definition prompt :: string where
  "prompt =
     ''You are a YouTube video summarizer. You will take the transcript text'' @ [CHR 0x0A] @
     ''and summarize the entire video, providing the important summary in points'' @ [CHR 0x0A] @
     ''within 250 words. Please provide the summary of the text given here: ''"

text \<open>
  The \<^verbatim>\<open>except\<close> clauses of \<^verbatim>\<open>extract_transcript_details\<close>, in their order. The local
  variable \<^verbatim>\<open>video_id\<close> is assigned by the first statement of the \<^verbatim>\<open>try\<close> body, so a
  handler may find it unassigned.
\<close>

definition transcript_handlers :: "services \<Rightarrow> string option \<Rightarrow> exn \<Rightarrow> string option run" where
  "transcript_handlers sv video_id e =
     (if exn_cls e = NoTranscriptFound then
        try_except
          (and_then (lift (read_var ''video_id'' video_id)) (\<lambda>vid.
           and_then (call (Call_get_transcript vid None) (get_transcript sv vid None))
             (\<lambda>transcript_text.
           ret (Some (join_transcript transcript_text)))))
          (\<lambda>_. and_then
                 (emit (St_warning ''No transcript available in any language for this video.''))
                 (\<lambda>_. ret None))
      else if exn_cls e = TranscriptsDisabled then
        and_then (emit (St_warning ''Subtitles are disabled for this video.''))
          (\<lambda>_. ret None)
      else
        and_then
          (emit (St_error
             (''An unexpected error occurred while fetching the transcript: '' @ exn_str e)))
          (\<lambda>_. ret None))"

definition extract_transcript_details :: "services \<Rightarrow> string \<Rightarrow> string option run" where
  "extract_transcript_details sv youtube_video_url =
     (case split_video_id youtube_video_url of
        Inl e \<Rightarrow> transcript_handlers sv None e
      | Inr video_id \<Rightarrow>
          try_except
            (and_then
               (call (Call_get_transcript video_id (Some [''en'']))
                  (get_transcript sv video_id (Some [''en''])))
               (\<lambda>transcript_text. ret (Some (join_transcript transcript_text))))
            (transcript_handlers sv (Some video_id)))"

definition generate_gemini_content :: "services \<Rightarrow> string \<Rightarrow> string \<Rightarrow> string run" where
  "generate_gemini_content sv transcript_text prompt' =
     call (Call_generate_content (prompt' @ transcript_text))
       (generate_content sv (prompt' @ transcript_text))"

definition keyword_texts :: "token list \<Rightarrow> string list" where
  "keyword_texts doc = map tok_text (filter (\<lambda>t. is_alpha t \<and> \<not> is_stop t) doc)"

definition extract_keywords :: "services \<Rightarrow> string \<Rightarrow> int \<Rightarrow> exn + string list" where
  "extract_keywords sv txt num_keywords =
     (case nlp sv txt of
        Inl e \<Rightarrow> Inl e
      | Inr doc \<Rightarrow>
          Inr (py_slice_to (list_of_set (hash_rank sv) (keyword_texts doc)) num_keywords))"

definition analyze_sentiment :: "services \<Rightarrow> string \<Rightarrow> string \<times> real \<times> real" where
  "analyze_sentiment sv txt =
     (case textblob_sentiment sv txt of
        (polarity, subjectivity) \<Rightarrow>
          ((if polarity > 0 then ''Positive''
            else if polarity < 0 then ''Negative''
            else ''Neutral''),
           polarity, subjectivity))"

record video_details =
  title :: string
  channel_title :: string
  views :: int
  likes :: int
  dislikes :: int
  comments :: int
  channel_id :: string

text \<open>\<^verbatim>\<open>int(stats.get(key, 0))\<close>\<close>

definition stat_or_zero :: "(string \<rightharpoonup> exn + int) \<Rightarrow> string \<Rightarrow> exn + int" where
  "stat_or_zero stats k = (case stats k of None \<Rightarrow> Inr 0 | Some r \<Rightarrow> r)"

definition build_details :: "video_item \<Rightarrow> exn + video_details" where
  "build_details details =
     (let stats = statistics details; snip = snippet details in
      case dict_getitem snip ''title'' of Inl e \<Rightarrow> Inl e | Inr t \<Rightarrow>
      case dict_getitem snip ''channelTitle'' of Inl e \<Rightarrow> Inl e | Inr ct \<Rightarrow>
      case stat_or_zero stats ''viewCount'' of Inl e \<Rightarrow> Inl e | Inr v \<Rightarrow>
      case stat_or_zero stats ''likeCount'' of Inl e \<Rightarrow> Inl e | Inr l \<Rightarrow>
      case stat_or_zero stats ''dislikeCount'' of Inl e \<Rightarrow> Inl e | Inr d \<Rightarrow>
      case stat_or_zero stats ''commentCount'' of Inl e \<Rightarrow> Inl e | Inr c \<Rightarrow>
      case dict_getitem snip ''channelId'' of Inl e \<Rightarrow> Inl e | Inr ci \<Rightarrow>
      Inr \<lparr>title = t, channel_title = ct, views = v, likes = l, dislikes = d,
           comments = c, channel_id = ci\<rparr>)"

definition get_video_details :: "services \<Rightarrow> string \<Rightarrow> video_details option run" where
  "get_video_details sv video_id =
     and_then (call (Call_videos_list video_id) (videos_list sv video_id)) (\<lambda>items.
       case items of
         [] \<Rightarrow> ret None
       | details # _ \<Rightarrow>
           (case build_details details of
              Inl e \<Rightarrow> lift (Inl e)
            | Inr d \<Rightarrow> ret (Some d)))"

text \<open>
  The loop of \<^verbatim>\<open>get_video_comments_with_sentiments\<close>:
  \<^verbatim>\<open>sentiments[sentiment].append(comment)\<close> for each item in turn.
\<close>

fun bucket_comments ::
  "services \<Rightarrow> (string \<rightharpoonup> string list) \<Rightarrow> comment_thread list \<Rightarrow> exn + (string \<rightharpoonup> string list)"
where
  "bucket_comments sv sentiments [] = Inr sentiments"
| "bucket_comments sv sentiments (item # rest) =
     (let comment = textOriginal item in
      case analyze_sentiment sv comment of
        (sentiment, _, _) \<Rightarrow>
          (case dict_getitem sentiments sentiment of
             Inl e \<Rightarrow> Inl e
           | Inr bucket \<Rightarrow>
               bucket_comments sv (sentiments(sentiment \<mapsto> bucket @ [comment])) rest))"

definition empty_sentiments :: "string \<rightharpoonup> string list" where
  "empty_sentiments = [''Positive'' \<mapsto> [], ''Negative'' \<mapsto> [], ''Neutral'' \<mapsto> []]"

definition get_video_comments_with_sentiments ::
  "services \<Rightarrow> string \<Rightarrow> (string \<rightharpoonup> string list) run"
where
  "get_video_comments_with_sentiments sv video_id =
     and_then (call (Call_comment_threads_list video_id) (comment_threads_list sv video_id))
       (\<lambda>items. lift (bucket_comments sv empty_sentiments items))"


text \<open>The statements of the \<^verbatim>\<open>try\<close> body from \<^verbatim>\<open>"## Video Details:"\<close> on.\<close>

definition display_results :: "video_details option \<Rightarrow> (string \<rightharpoonup> string list) \<Rightarrow> unit run" where
  "display_results details_opt comments_by_sentiment =
     and_then (emit (St_markdown ''## Video Details:'')) (\<lambda>_.
     and_then (lift (subscript details_opt)) (\<lambda>d.
     and_then (emits
       [St_write (''**Title:** '' @ title d),
        St_write (''**Channel:** '' @ channel_title d),
        St_write (''**Views:** '' @ str_of_int (views d)),
        St_write (''**Likes:** '' @ str_of_int (likes d)),
        St_write (''**Dislikes:** '' @ str_of_int (dislikes d)),
        St_write (''**Comments:** '' @ str_of_int (comments d)),
        St_markdown ''### Comment Sentiment Analysis:'']) (\<lambda>_.
     and_then (lift (dict_getitem comments_by_sentiment ''Positive'')) (\<lambda>pos.
     and_then (emit (St_write
       (''**Positive Comments:** '' @ str_of_int (int (length pos))))) (\<lambda>_.
     and_then (lift (dict_getitem comments_by_sentiment ''Negative'')) (\<lambda>neg.
     and_then (emit (St_write
       (''**Negative Comments:** '' @ str_of_int (int (length neg))))) (\<lambda>_.
     and_then (lift (dict_getitem comments_by_sentiment ''Neutral'')) (\<lambda>neu.
     and_then (emits
       [St_write (''**Neutral Comments:** '' @ str_of_int (int (length neu))),
        St_markdown ''### Negative Comments:'']) (\<lambda>_.
     if neg \<noteq> [] then
       emits (map (\<lambda>(idx, comment). St_write (str_of_int (int idx) @ ''. '' @ comment))
                (enumerate 1 neg))
     else emit (St_write ''No negative comments found.''))))))))))"

text \<open>
  The body of the \<^verbatim>\<open>try\<close> under the button, in its two parts: the statements up to
  the keywords, and the statements from \<^verbatim>\<open>get_video_details(video_id)\<close> on.
  \<open>video_id_var\<close> is the module-level variable \<^verbatim>\<open>video_id\<close>, assigned only where the
  link is not empty.
\<close>

definition summary_and_keywords :: "services \<Rightarrow> string \<Rightarrow> unit run" where
  "summary_and_keywords sv youtube_link =
     and_then (extract_transcript_details sv youtube_link) (\<lambda>transcript_text.
       case transcript_text of
         Some t \<Rightarrow>
           if t \<noteq> [] then
             and_then (generate_gemini_content sv t prompt) (\<lambda>summary.
             and_then (lift (extract_keywords sv t 10)) (\<lambda>keywords.
             emits
               [St_markdown ''## Summary:'', St_write summary,
                St_markdown ''### Keywords:'', St_write (py_join '', '' keywords)]))
           else
             emit (St_warning
               ''Transcript-based analysis skipped due to unavailable subtitles.'')
       | None \<Rightarrow>
           emit (St_warning
             ''Transcript-based analysis skipped due to unavailable subtitles.''))"

definition details_and_comments :: "services \<Rightarrow> string option \<Rightarrow> unit run" where
  "details_and_comments sv video_id_var =
     and_then (lift (read_var ''video_id'' video_id_var)) (\<lambda>video_id.
     and_then (get_video_details sv video_id) (\<lambda>details_opt.
     and_then (get_video_comments_with_sentiments sv video_id) (\<lambda>comments_by_sentiment.
     display_results details_opt comments_by_sentiment)))"

definition analyze_video :: "services \<Rightarrow> string \<Rightarrow> string option \<Rightarrow> unit run" where
  "analyze_video sv youtube_link video_id_var =
     and_then (summary_and_keywords sv youtube_link)
       (\<lambda>_. details_and_comments sv video_id_var)"

text \<open>
  One run of \<^verbatim>\<open>app5.py\<close>: \<open>youtube_link\<close> is what the text input holds, \<open>clicked\<close> whether
  this run was started by the button.
\<close>

definition app5_thumbnail :: "string \<Rightarrow> string option run" where
  "app5_thumbnail youtube_link =
     (if youtube_link \<noteq> [] then
        and_then (lift (split_video_id youtube_link)) (\<lambda>video_id.
        and_then (emit (St_image (''http://img.youtube.com/vi/'' @ video_id @ ''/0.jpg'')))
          (\<lambda>_. ret (Some video_id)))
      else ret None)"

text \<open>The \<^verbatim>\<open>try\<close> statement under the button, with its single \<^verbatim>\<open>except Exception\<close>.\<close>

definition app5_on_click :: "services \<Rightarrow> string \<Rightarrow> string option \<Rightarrow> unit run" where
  "app5_on_click sv youtube_link video_id_var =
     try_except (analyze_video sv youtube_link video_id_var)
       (\<lambda>e. emit (St_error (''An error occurred: '' @ exn_str e)))"

definition app5_script :: "services \<Rightarrow> string \<Rightarrow> bool \<Rightarrow> unit run" where
  "app5_script sv youtube_link clicked =
     and_then (emits
       [St_title ''YouTube Video Analysis Tool'',
        St_text_input ''Enter YouTube Video Link:'']) (\<lambda>_.
     and_then (app5_thumbnail youtube_link) (\<lambda>video_id_var.
     and_then (emit (St_button ''Analyze Video'')) (\<lambda>_.
     if clicked then app5_on_click sv youtube_link video_id_var else ret ())))"

section \<open>app.py\<close>

definition app_prompt :: string where
  "app_prompt =
     ''You are a YouTube video summarizer. You will take the transcript text'' @ [CHR 0x0A] @
     ''and summarize the entire video, providing the important points in a summary within 250 words.''
       @ [CHR 0x0A] @
     ''Please summarize the following text: ''"

definition app_extract_transcript_details :: "services \<Rightarrow> string \<Rightarrow> string option run" where
  "app_extract_transcript_details sv youtube_video_url =
     try_except
       (and_then (lift (split_video_id youtube_video_url)) (\<lambda>video_id.
        and_then (call (Call_get_transcript video_id None) (get_transcript sv video_id None))
          (\<lambda>transcript_data.
        ret (Some (join_transcript transcript_data)))))
       (\<lambda>e. and_then
          (if exn_cls e = TranscriptsDisabled then
             and_then (emit (St_error
               ''Transcripts are disabled for this video. Please try another video.'')) (\<lambda>_.
             and_then (lift (split_video_id youtube_video_url)) (\<lambda>vid.
             emit (Logging_error (''Transcripts are disabled for video ID: '' @ vid))))
           else if exn_cls e = VideoUnavailable then
             emits
               [St_error ''The video is unavailable or does not exist. Please check the link.'',
                Logging_error (''Video unavailable for URL: '' @ youtube_video_url)]
           else
             emits
               [St_error (''An unexpected error occurred: '' @ exn_str e),
                Logging_error (''Unexpected error: '' @ exn_str e)])
          (\<lambda>_. ret None))"

definition app_generate_gemini_content ::
  "services \<Rightarrow> string \<Rightarrow> string \<Rightarrow> string option run"
where
  "app_generate_gemini_content sv transcript_text prompt' =
     try_except
       (and_then
          (call (Call_generate_content (prompt' @ transcript_text))
             (generate_content sv (prompt' @ transcript_text)))
          (\<lambda>response_text. ret (Some response_text)))
       (\<lambda>e. and_then
          (emits
             [St_error ''An error occurred while generating the summary. Please try again.'',
              Logging_error (''Error in Gemini content generation: '' @ exn_str e)])
          (\<lambda>_. ret None))"

definition app_thumbnail :: "string \<Rightarrow> unit run" where
  "app_thumbnail youtube_link =
     (if youtube_link \<noteq> [] then
        try_except
          (and_then (lift (split_video_id youtube_link)) (\<lambda>video_id.
           emit (St_image (''http://img.youtube.com/vi/'' @ video_id @ ''/0.jpg''))))
          (\<lambda>e. if exn_cls e = IndexError then
                 emit (St_error ''Invalid YouTube link. Please provide a valid URL.'')
               else lift (Inl e))
      else ret ())"

definition app_script :: "services \<Rightarrow> string \<Rightarrow> bool \<Rightarrow> unit run" where
  "app_script sv youtube_link clicked =
     and_then (emits
       [St_title ''YouTube Transcript to Detailed Notes Converter'',
        St_text_input ''Enter YouTube Video Link:'']) (\<lambda>_.
     and_then (app_thumbnail youtube_link) (\<lambda>_.
     and_then (emit (St_button ''Get Detailed Notes'')) (\<lambda>_.
     if clicked then
       and_then (app_extract_transcript_details sv youtube_link) (\<lambda>transcript_text.
       case transcript_text of
         None \<Rightarrow> ret ()
       | Some t \<Rightarrow>
           if t \<noteq> [] then
             and_then (app_generate_gemini_content sv t app_prompt) (\<lambda>summary.
             case summary of
               None \<Rightarrow> ret ()
             | Some text \<Rightarrow>
                 if text \<noteq> [] then emits [St_markdown ''## Detailed Notes:'', St_write text]
                 else ret ())
           else ret ())
     else ret ())))"

section \<open>Stand-in services for the worked examples\<close>

text \<open>
  A fixed set of answers in place of the remote services, so that the scripts can be run
  on concrete inputs. The variants below change one service each.
\<close>

definition demo_item :: video_item where
  "demo_item =
     \<lparr>snippet = [''title'' \<mapsto> ''Demo'', ''channelTitle'' \<mapsto> ''Chan'', ''channelId'' \<mapsto> ''UC1''],
      statistics = [''viewCount'' \<mapsto> Inr 1500, ''commentCount'' \<mapsto> Inr 3]\<rparr>"

definition demo_services :: services where
  "demo_services =
     \<lparr>get_transcript = (\<lambda>vid langs. Inr [seg ''hello'', seg ''world'']),
      generate_content = (\<lambda>payload. Inr ''A short summary.''),
      nlp = (\<lambda>txt. Inr
        [\<lparr>tok_text = ''hello'', is_alpha = True, is_stop = False\<rparr>,
         \<lparr>tok_text = ''the'', is_alpha = True, is_stop = True\<rparr>,
         \<lparr>tok_text = ''world'', is_alpha = True, is_stop = False\<rparr>,
         \<lparr>tok_text = ''42'', is_alpha = False, is_stop = False\<rparr>,
         \<lparr>tok_text = ''hello'', is_alpha = True, is_stop = False\<rparr>]),
      textblob_sentiment = (\<lambda>txt.
        if txt = ''great'' then (3 / 10, 3 / 4)
        else if txt = ''good'' then (3 / 10, 1 / 10)
        else if txt = ''awful'' then (- 1 / 100, 1)
        else (0, 1 / 2)),
      videos_list = (\<lambda>vid. Inr [demo_item]),
      comment_threads_list = (\<lambda>vid. Inr
        [\<lparr>textOriginal = ''great''\<rparr>, \<lparr>textOriginal = ''awful''\<rparr>,
         \<lparr>textOriginal = ''ok''\<rparr>, \<lparr>textOriginal = ''great''\<rparr>]),
      hash_rank = length\<rparr>"

definition demo_url :: string where
  "demo_url = ''https://www.youtube.com/watch?v=dQw4w9WgXcQ''"

definition short_url :: string where
  "short_url = ''https://youtu.be/dQw4w9WgXcQ''"

text \<open>
  A video whose only transcript is Spanish: a request is answered when its language list
  names \<open>es\<close>, and a request without a list is taken as \<^verbatim>\<open>('en',)\<close>.
\<close>

definition only_spanish :: services where
  "only_spanish = demo_services
     \<lparr>get_transcript := (\<lambda>vid langs.
        if ''es'' \<in> set (case langs of None \<Rightarrow> [''en''] | Some ls \<Rightarrow> ls)
        then Inr [seg ''hola'', seg ''mundo'']
        else Inl (Exn NoTranscriptFound ''no transcript in the requested languages''))\<rparr>"

definition no_captions :: services where
  "no_captions = demo_services
     \<lparr>get_transcript := (\<lambda>vid langs. Inl (Exn NoTranscriptFound ''no transcript''))\<rparr>"

definition captions_disabled :: services where
  "captions_disabled = demo_services
     \<lparr>get_transcript := (\<lambda>vid langs. Inl (Exn TranscriptsDisabled ''disabled''))\<rparr>"

definition no_such_video :: services where
  "no_such_video = demo_services \<lparr>videos_list := (\<lambda>vid. Inr [])\<rparr>"

definition no_statistics :: services where
  "no_statistics = demo_services
     \<lparr>videos_list := (\<lambda>vid. Inr [demo_item\<lparr>statistics := Map.empty\<rparr>])\<rparr>"



section \<open>Splitting and joining\<close>

lemma py_split_not_Nil: "py_split c s \<noteq> []"
  by (induction s) (auto split: list.splits)

lemma py_split_no_sep: "c \<notin> set s \<Longrightarrow> py_split c s = [s]"
  by (induction s) auto

lemma py_split_unfold:
  "py_split c s =
     takeWhile (\<lambda>x. x \<noteq> c) s #
       (if c \<in> set s then py_split c (tl (dropWhile (\<lambda>x. x \<noteq> c) s)) else [])"
proof (induction s)
  case Nil
  show ?case by simp
next
  case (Cons x xs)
  show ?case
  proof (cases "x = c")
    case True
    then show ?thesis by simp
  next
    case False
    with Cons show ?thesis
      by (cases "py_split c xs") (auto simp: py_split_not_Nil)
  qed
qed

lemma py_split_second:
  assumes "c \<in> set s"
  shows "py_getitem (py_split c s) 1 = Inr (takeWhile (\<lambda>x. x \<noteq> c) (tl (dropWhile (\<lambda>x. x \<noteq> c) s)))"
proof -
  let ?r = "tl (dropWhile (\<lambda>x. x \<noteq> c) s)"
  have "py_split c s = takeWhile (\<lambda>x. x \<noteq> c) s # py_split c ?r"
    using assms py_split_unfold [of c s] by simp
  moreover have "py_split c ?r = takeWhile (\<lambda>x. x \<noteq> c) ?r # tl (py_split c ?r)"
    using py_split_unfold [of c ?r] by simp
  ultimately have "py_split c s =
      takeWhile (\<lambda>x. x \<noteq> c) s # takeWhile (\<lambda>x. x \<noteq> c) ?r # tl (py_split c ?r)"
    by simp
  then show ?thesis
    by (simp add: py_getitem_def)
qed

lemma py_split_no_second:
  "c \<notin> set s \<Longrightarrow> py_getitem (py_split c s) 1 = Inl (Exn IndexError ''list index out of range'')"
  by (simp add: py_split_no_sep py_getitem_def)

lemma py_join_Cons:
  "py_join sep (x # xs) = x @ concat (map (\<lambda>e. sep @ e) xs)"
  by (induction xs arbitrary: x) auto

lemma takeWhile_all_iff: "takeWhile P xs = xs \<longleftrightarrow> (\<forall>x\<in>set xs. P x)"
  by (induction xs) auto

lemma count_one_iff:
  "count_list s c = 1 \<longleftrightarrow> c \<in> set s \<and> c \<notin> set (tl (dropWhile (\<lambda>x. x \<noteq> c) s))"
proof (induction s)
  case Nil
  show ?case by simp
next
  case (Cons x xs)
  show ?case
  proof (cases "x = c")
    case True
    then show ?thesis by (simp add: count_list_0_iff)
  next
    case False
    with Cons show ?thesis by simp
  qed
qed

lemma demo_url_has_eq: "CHR ''='' \<in> set demo_url"
  by code_simp

lemma demo_url_id: "split_video_id demo_url = Inr ''dQw4w9WgXcQ''"
  by code_simp

section \<open>Sequencing and handlers\<close>

lemma and_then_Inl [simp]: "and_then (evs, Inl e) f = (evs, Inl e)"
  by (simp add: and_then_def)

lemma and_then_Inr [simp]: "and_then (evs, Inr x) f = (evs @ fst (f x), snd (f x))"
  by (simp add: and_then_def split: prod.splits)

lemma try_except_Inl [simp]: "try_except (evs, Inl e) h = (evs @ fst (h e), snd (h e))"
  by (simp add: try_except_def split: prod.splits)

lemma try_except_Inr [simp]: "try_except (evs, Inr x) h = (evs, Inr x)"
  by (simp add: try_except_def)

lemmas run_defs = ret_def lift_def emit_def emits_def call_def

section \<open>The transcript stage\<close>

lemma extract_restricted_ok:
  assumes "split_video_id url = Inr vid"
    and "get_transcript sv vid (Some [''en'']) = Inr segs"
  shows "extract_transcript_details sv url =
           ([Call_get_transcript vid (Some [''en''])], Inr (Some (join_transcript segs)))"
  using assms by (simp add: extract_transcript_details_def run_defs)


lemma extract_both_fail:
  assumes "split_video_id url = Inr vid"
    and "get_transcript sv vid (Some [''en'']) = Inl e"
    and "exn_cls e = NoTranscriptFound"
    and "get_transcript sv vid None = Inl e'"
  shows "extract_transcript_details sv url =
           ([Call_get_transcript vid (Some [''en'']), Call_get_transcript vid None,
             St_warning ''No transcript available in any language for this video.''],
            Inr None)"
  using assms
  by (simp add: extract_transcript_details_def transcript_handlers_def read_var_def run_defs)

lemma extract_disabled:
  assumes "split_video_id url = Inr vid"
    and "get_transcript sv vid (Some [''en'']) = Inl e"
    and "exn_cls e = TranscriptsDisabled"
  shows "extract_transcript_details sv url =
           ([Call_get_transcript vid (Some [''en'']),
             St_warning ''Subtitles are disabled for this video.''],
            Inr None)"
  using assms
  by (simp add: extract_transcript_details_def transcript_handlers_def read_var_def run_defs)

lemma app_extract_ok:
  assumes "split_video_id url = Inr vid"
    and "get_transcript sv vid None = Inr segs"
  shows "app_extract_transcript_details sv url =
           ([Call_get_transcript vid None], Inr (Some (join_transcript segs)))"
  using assms by (simp add: app_extract_transcript_details_def run_defs)

lemma join_transcript_spaced: "join_transcript segs = spaced_texts segs"
  by (cases segs) (simp_all add: join_transcript_def spaced_texts_def py_join_Cons comp_def)

section \<open>Claims\<close>

lemma fallback_repeats_request:
  assumes "split_video_id url = Inr vid"
    and "get_transcript sv vid None = get_transcript sv vid (Some [''en''])"
    and "get_transcript sv vid (Some [''en'']) = Inl e"
    and "exn_cls e = NoTranscriptFound"
  shows "extract_transcript_details sv url =
           ([Call_get_transcript vid (Some [''en'']), Call_get_transcript vid None,
             St_warning ''No transcript available in any language for this video.''],
            Inr None)"
  using assms by (simp add: extract_both_fail)

text \<open>
  Claim C1. The second retrieval of \<open>extract_transcript_details\<close> in \<^verbatim>\<open>app5.py\<close> passes
  no language list, which the library takes as \<^verbatim>\<open>('en',)\<close>: it repeats the first request
  instead of asking for any language. For a video whose only transcript is Spanish the
  transcript service has a transcript, both requests of the function raise
  \<^verbatim>\<open>NoTranscriptFound\<close>, and the function warns that no transcript is available in any
  language and returns \<^verbatim>\<open>None\<close>. When captions are disabled the function shows the
  other warning.
\<close>

theorem fallback_repeats_the_english_request:
  "get_transcript only_spanish ''dQw4w9WgXcQ'' (Some [''es''])
     = Inr [seg ''hola'', seg ''mundo''] \<and>
   get_transcript only_spanish ''dQw4w9WgXcQ'' None
     = get_transcript only_spanish ''dQw4w9WgXcQ'' (Some [''en'']) \<and>
   extract_transcript_details only_spanish demo_url =
     ([Call_get_transcript ''dQw4w9WgXcQ'' (Some [''en'']),
       Call_get_transcript ''dQw4w9WgXcQ'' None,
       St_warning ''No transcript available in any language for this video.''],
      Inr None) \<and>
   extract_transcript_details captions_disabled demo_url =
     ([Call_get_transcript ''dQw4w9WgXcQ'' (Some [''en'']),
       St_warning ''Subtitles are disabled for this video.''],
      Inr None)"
proof (intro conjI)
  show "get_transcript only_spanish ''dQw4w9WgXcQ'' (Some [''es''])
          = Inr [seg ''hola'', seg ''mundo'']"
    by (simp add: only_spanish_def)
  show d: "get_transcript only_spanish ''dQw4w9WgXcQ'' None
          = get_transcript only_spanish ''dQw4w9WgXcQ'' (Some [''en''])"
    by (simp add: only_spanish_def)
  have r: "get_transcript only_spanish ''dQw4w9WgXcQ'' (Some [''en''])
          = Inl (Exn NoTranscriptFound ''no transcript in the requested languages'')"
    by (simp add: only_spanish_def)
  show "extract_transcript_details only_spanish demo_url =
     ([Call_get_transcript ''dQw4w9WgXcQ'' (Some [''en'']),
       Call_get_transcript ''dQw4w9WgXcQ'' None,
       St_warning ''No transcript available in any language for this video.''],
      Inr None)"
    by (rule fallback_repeats_request [OF demo_url_id d r]) simp
  have c: "get_transcript captions_disabled ''dQw4w9WgXcQ'' (Some [''en''])
          = Inl (Exn TranscriptsDisabled ''disabled'')"
    by (simp add: captions_disabled_def)
  show "extract_transcript_details captions_disabled demo_url =
     ([Call_get_transcript ''dQw4w9WgXcQ'' (Some [''en'']),
       St_warning ''Subtitles are disabled for this video.''],
      Inr None)"
    by (rule extract_disabled [OF demo_url_id c]) simp
qed

text \<open>
  Claim C3. For every list of caption segments, the transcript text built by both scripts
  is the first segment's \<^verbatim>\<open>text\<close> followed, for each later segment in the order received,
  by one space and that segment's \<^verbatim>\<open>text\<close>. The segments \<open>a\<close>, \<open>b\<close>, \<open>c\<close> give
  \<open>a b c\<close>, no segments give the empty string, and this text is what
  \<open>extract_transcript_details\<close> returns in \<^verbatim>\<open>app5.py\<close> and in \<^verbatim>\<open>app.py\<close> when the
  retrieval succeeds.
\<close>

theorem transcript_join_order_and_spaces:
  "join_transcript segs = spaced_texts segs \<and>
   join_transcript [seg ''a'', seg ''b'', seg ''c''] = ''a b c'' \<and>
   join_transcript [] = [] \<and>
   (split_video_id url = Inr vid \<and> get_transcript sv vid (Some [''en'']) = Inr segs \<longrightarrow>
      snd (extract_transcript_details sv url) = Inr (Some (spaced_texts segs))) \<and>
   (split_video_id url = Inr vid \<and> get_transcript sv vid None = Inr segs \<longrightarrow>
      snd (app_extract_transcript_details sv url) = Inr (Some (spaced_texts segs)))"
proof (intro conjI impI)
  show "join_transcript segs = spaced_texts segs"
    by (rule join_transcript_spaced)
  show "join_transcript [seg ''a'', seg ''b'', seg ''c''] = ''a b c''"
    by (simp add: join_transcript_def seg_def)
  show "join_transcript [] = []"
    by (simp add: join_transcript_def)
next
  assume "split_video_id url = Inr vid \<and> get_transcript sv vid (Some [''en'']) = Inr segs"
  then show "snd (extract_transcript_details sv url) = Inr (Some (spaced_texts segs))"
    by (simp add: extract_restricted_ok join_transcript_spaced)
next
  assume "split_video_id url = Inr vid \<and> get_transcript sv vid None = Inr segs"
  then show "snd (app_extract_transcript_details sv url) = Inr (Some (spaced_texts segs))"
    by (simp add: app_extract_ok join_transcript_spaced)
qed

theorem transcript_join_order_and_spaces_witness:
  "snd (extract_transcript_details demo_services demo_url) = Inr (Some ''hello world'') \<and>
   snd (app_extract_transcript_details demo_services demo_url) = Inr (Some ''hello world'')"
proof -
  have g: "get_transcript demo_services ''dQw4w9WgXcQ'' (Some [''en''])
             = Inr [seg ''hello'', seg ''world'']"
          "get_transcript demo_services ''dQw4w9WgXcQ'' None
             = Inr [seg ''hello'', seg ''world'']"
    by (simp_all add: demo_services_def)
  have s: "spaced_texts [seg ''hello'', seg ''world''] = ''hello world''"
    by (simp add: spaced_texts_def seg_def)
  note t = transcript_join_order_and_spaces
    [of "[seg ''hello'', seg ''world'']" demo_url "''dQw4w9WgXcQ''" demo_services]
  have "snd (extract_transcript_details demo_services demo_url)
          = Inr (Some (spaced_texts [seg ''hello'', seg ''world'']))"
    using t demo_url_id g(1) by (simp only: simp_thms)
  moreover have "snd (app_extract_transcript_details demo_services demo_url)
          = Inr (Some (spaced_texts [seg ''hello'', seg ''world'']))"
    using t demo_url_id g(2) by (simp only: simp_thms)
  ultimately show ?thesis
    unfolding s by (intro conjI)
qed

text \<open>
  Claim C4 (as amended). For every link containing \<open>=\<close>, the identifier the scripts
  extract is the second piece of the link split at every \<open>=\<close>: the text after the first
  \<open>=\<close> up to the next \<open>=\<close> or the end. It is the whole text after the first \<open>=\<close>
  exactly when the link contains a single \<open>=\<close>.
\<close>

theorem video_id_is_second_segment:
  assumes "CHR ''='' \<in> set url"
  shows "split_video_id url = Inr (takeWhile (\<lambda>c. c \<noteq> CHR ''='') (after_first_eq url)) \<and>
         (split_video_id url = Inr (after_first_eq url) \<longleftrightarrow> count_list url CHR ''='' = 1)"
proof -
  have a: "split_video_id url = Inr (takeWhile (\<lambda>c. c \<noteq> CHR ''='') (after_first_eq url))"
    using assms by (simp add: split_video_id_def after_first_eq_def py_split_second)
  have "(takeWhile (\<lambda>c. c \<noteq> CHR ''='') (after_first_eq url) = after_first_eq url)
        = (CHR ''='' \<notin> set (after_first_eq url))"
    unfolding takeWhile_all_iff by blast
  also have "\<dots> = (count_list url CHR ''='' = 1)"
    unfolding count_one_iff after_first_eq_def using assms by simp
  finally show ?thesis using a by simp
qed

theorem video_id_is_second_segment_witness:
  "CHR ''='' \<in> set demo_url \<and>
   count_list demo_url CHR ''='' = 1 \<and>
   split_video_id demo_url = Inr (after_first_eq demo_url) \<and>
   after_first_eq demo_url = ''dQw4w9WgXcQ''"
proof -
  have c: "count_list demo_url CHR ''='' = 1"
    by code_simp
  have e: "after_first_eq demo_url = ''dQw4w9WgXcQ''"
    by code_simp
  note t = video_id_is_second_segment [OF demo_url_has_eq]
  have s: "split_video_id demo_url = Inr (after_first_eq demo_url)"
    using t [THEN conjunct2] c by (rule iffD2)
  show ?thesis
    by (intro conjI) (rule demo_url_has_eq c s e)+
qed

text \<open>
  The claim as first stated fails on a link with a second \<open>=\<close>: a watch link with a time
  offset. The scripts take \<open>dQw4w9WgXcQ&t\<close>, the text after the first \<open>=\<close> is
  \<open>dQw4w9WgXcQ&t=43s\<close>.
\<close>

theorem video_id_after_first_eq_counterexample:
  "CHR ''='' \<in> set ''https://www.youtube.com/watch?v=dQw4w9WgXcQ&t=43s'' \<and>
   split_video_id ''https://www.youtube.com/watch?v=dQw4w9WgXcQ&t=43s''
     \<noteq> Inr (after_first_eq ''https://www.youtube.com/watch?v=dQw4w9WgXcQ&t=43s'')"
  by code_simp

lemma video_id_two_eq_values:
  "split_video_id ''https://www.youtube.com/watch?v=dQw4w9WgXcQ&t=43s'' = Inr ''dQw4w9WgXcQ&t'' \<and>
   after_first_eq ''https://www.youtube.com/watch?v=dQw4w9WgXcQ&t=43s'' = ''dQw4w9WgXcQ&t=43s''"
  by code_simp

section \<open>Sentiment labels and comment buckets\<close>

lemma analyze_sentiment_label:
  "fst (analyze_sentiment sv txt) =
     (if 0 < fst (textblob_sentiment sv txt) then ''Positive''
      else if fst (textblob_sentiment sv txt) < 0 then ''Negative''
      else ''Neutral'')"
  by (simp add: analyze_sentiment_def split: prod.splits)

lemma analyze_sentiment_scores:
  "snd (analyze_sentiment sv txt) = textblob_sentiment sv txt"
  by (simp add: analyze_sentiment_def split: prod.splits)

lemma analyze_sentiment_three:
  "fst (analyze_sentiment sv txt) \<in> {''Positive'', ''Negative'', ''Neutral''}"
  by (simp add: analyze_sentiment_label)

lemma bucket_comments_step:
  "bucket_comments sv m (item # rest) =
     (case dict_getitem m (fst (analyze_sentiment sv (textOriginal item))) of
        Inl e \<Rightarrow> Inl e
      | Inr bucket \<Rightarrow>
          bucket_comments sv
            (m(fst (analyze_sentiment sv (textOriginal item)) \<mapsto> bucket @ [textOriginal item]))
            rest)"
  by (cases "analyze_sentiment sv (textOriginal item)") (simp add: Let_def cong: sum.case_cong)

lemma bucket_comments_acc:
  assumes "{''Positive'', ''Negative'', ''Neutral''} \<subseteq> dom m"
  shows "\<exists>m'. bucket_comments sv m items = Inr m' \<and>
           (\<forall>l. m' l = map_option
                  (\<lambda>b. b @ filter (\<lambda>c. fst (analyze_sentiment sv c) = l) (map textOriginal items))
                  (m l))"
  using assms
proof (induction items arbitrary: m)
  case Nil
  show ?case by (simp add: option.map_ident)
next
  case (Cons item rest)
  let ?c = "textOriginal item"
  let ?l = "fst (analyze_sentiment sv ?c)"
  have "?l \<in> dom m"
    using analyze_sentiment_three [of sv ?c] Cons.prems by blast
  then obtain b where b: "m ?l = Some b"
    by auto
  let ?m = "m(?l \<mapsto> b @ [?c])"
  have step: "bucket_comments sv m (item # rest) = bucket_comments sv ?m rest"
    using b by (simp add: bucket_comments_step dict_getitem_def del: bucket_comments.simps)
  have "{''Positive'', ''Negative'', ''Neutral''} \<subseteq> dom ?m"
    using Cons.prems by auto
  from Cons.IH [OF this] obtain m' where r: "bucket_comments sv ?m rest = Inr m'"
    and f: "\<And>l. m' l = map_option
              (\<lambda>b. b @ filter (\<lambda>c. fst (analyze_sentiment sv c) = l) (map textOriginal rest))
              (?m l)"
    by blast
  have "m' l = map_option
          (\<lambda>b. b @ filter (\<lambda>c. fst (analyze_sentiment sv c) = l) (map textOriginal (item # rest)))
          (m l)" for l
  proof (cases "l = ?l")
    case True
    then show ?thesis using f [of l] b by simp
  next
    case False
    then show ?thesis using f [of l] by simp
  qed
  with r show ?case
    unfolding step by blast
qed

lemma three_filters_length:
  "length (filter (\<lambda>c. fst (analyze_sentiment sv c) = ''Positive'') cs) +
   length (filter (\<lambda>c. fst (analyze_sentiment sv c) = ''Negative'') cs) +
   length (filter (\<lambda>c. fst (analyze_sentiment sv c) = ''Neutral'') cs) = length cs"
proof (induction cs)
  case Nil
  show ?case by simp
next
  case (Cons c cs)
  then show ?case
    using analyze_sentiment_three [of sv c] by auto
qed

lemma dom_empty_sentiments: "dom empty_sentiments = {''Positive'', ''Negative'', ''Neutral''}"
  by (auto simp: empty_sentiments_def split: if_splits)

text \<open>
  Claim C6. For every text, the label \<open>analyze_sentiment\<close> returns depends on the sign of
  the collaborator's polarity only: \<open>Positive\<close> exactly when it is above zero, \<open>Negative\<close>
  exactly when it is below zero, \<open>Neutral\<close> exactly when it is zero, whatever the
  subjectivity. Polarity and subjectivity are returned as the collaborator gave them, so
  they lie in \<open>[-1, 1]\<close> and \<open>[0, 1]\<close>, the ranges the collaborator documents.
\<close>

theorem sentiment_label_is_sign_of_polarity:
  "(case analyze_sentiment sv txt of
      (label, polarity, subjectivity) \<Rightarrow>
        (polarity, subjectivity) = textblob_sentiment sv txt \<and>
        (label = ''Positive'' \<longleftrightarrow> 0 < polarity) \<and>
        (label = ''Negative'' \<longleftrightarrow> polarity < 0) \<and>
        (label = ''Neutral'' \<longleftrightarrow> polarity = 0)) \<and>
   (fst (textblob_sentiment sv txt) = fst (textblob_sentiment sv' txt') \<longrightarrow>
      fst (analyze_sentiment sv txt) = fst (analyze_sentiment sv' txt')) \<and>
   (- 1 \<le> fst (textblob_sentiment sv txt) \<and> fst (textblob_sentiment sv txt) \<le> 1 \<and>
    0 \<le> snd (textblob_sentiment sv txt) \<and> snd (textblob_sentiment sv txt) \<le> 1 \<longrightarrow>
      (case analyze_sentiment sv txt of
         (label, polarity, subjectivity) \<Rightarrow>
           - 1 \<le> polarity \<and> polarity \<le> 1 \<and> 0 \<le> subjectivity \<and> subjectivity \<le> 1))"
proof (intro conjI impI)
  show "case analyze_sentiment sv txt of
      (label, polarity, subjectivity) \<Rightarrow>
        (polarity, subjectivity) = textblob_sentiment sv txt \<and>
        (label = ''Positive'' \<longleftrightarrow> 0 < polarity) \<and>
        (label = ''Negative'' \<longleftrightarrow> polarity < 0) \<and>
        (label = ''Neutral'' \<longleftrightarrow> polarity = 0)"
    by (auto simp: analyze_sentiment_def split: prod.splits)
next
  assume "fst (textblob_sentiment sv txt) = fst (textblob_sentiment sv' txt')"
  then show "fst (analyze_sentiment sv txt) = fst (analyze_sentiment sv' txt')"
    by (simp add: analyze_sentiment_label)
next
  assume "- 1 \<le> fst (textblob_sentiment sv txt) \<and> fst (textblob_sentiment sv txt) \<le> 1 \<and>
    0 \<le> snd (textblob_sentiment sv txt) \<and> snd (textblob_sentiment sv txt) \<le> 1"
  then show "case analyze_sentiment sv txt of
         (label, polarity, subjectivity) \<Rightarrow>
           - 1 \<le> polarity \<and> polarity \<le> 1 \<and> 0 \<le> subjectivity \<and> subjectivity \<le> 1"
    by (auto simp: analyze_sentiment_def split: prod.splits)
qed

theorem sentiment_label_is_sign_of_polarity_witness:
  "analyze_sentiment demo_services ''great'' = (''Positive'', 3 / 10, 3 / 4) \<and>
   analyze_sentiment demo_services ''awful'' = (''Negative'', - 1 / 100, 1) \<and>
   analyze_sentiment demo_services ''ok'' = (''Neutral'', 0, 1 / 2) \<and>
   fst (analyze_sentiment demo_services ''good'') = fst (analyze_sentiment demo_services ''great'') \<and>
   snd (textblob_sentiment demo_services ''good'') \<noteq> snd (textblob_sentiment demo_services ''great'')"
proof -
  have tb: "textblob_sentiment demo_services ''great'' = (3 / 10, 3 / 4)"
           "textblob_sentiment demo_services ''good'' = (3 / 10, 1 / 10)"
           "textblob_sentiment demo_services ''awful'' = (- 1 / 100, 1)"
           "textblob_sentiment demo_services ''ok'' = (0, 1 / 2)"
    by (simp_all add: demo_services_def)
  have "analyze_sentiment demo_services ''great'' = (''Positive'', 3 / 10, 3 / 4)"
    using sentiment_label_is_sign_of_polarity [of demo_services "''great''" demo_services "''great''"]
    by (auto simp: tb split: prod.splits)
  moreover have "analyze_sentiment demo_services ''awful'' = (''Negative'', - 1 / 100, 1)"
    using sentiment_label_is_sign_of_polarity [of demo_services "''awful''" demo_services "''awful''"]
    by (auto simp: tb split: prod.splits)
  moreover have "analyze_sentiment demo_services ''ok'' = (''Neutral'', 0, 1 / 2)"
    using sentiment_label_is_sign_of_polarity [of demo_services "''ok''" demo_services "''ok''"]
    by (auto simp: tb split: prod.splits)
  moreover have "fst (analyze_sentiment demo_services ''good'')
                   = fst (analyze_sentiment demo_services ''great'')"
    using sentiment_label_is_sign_of_polarity [of demo_services "''good''" demo_services "''great''"]
    by (simp add: tb)
  moreover have "snd (textblob_sentiment demo_services ''good'')
                   \<noteq> snd (textblob_sentiment demo_services ''great'')"
    by (simp add: tb)
  ultimately show ?thesis by (intro conjI)
qed

text \<open>
  Claim C10. When the comment threads are fetched, \<open>get_video_comments_with_sentiments\<close>
  returns a dictionary with exactly the keys \<open>Positive\<close>, \<open>Negative\<close> and \<open>Neutral\<close>; the
  label of every comment is one of these three, so the lookup in the loop never fails;
  each bucket holds the comments with that label in the order received; and the three
  sizes add up to the number of comments fetched.
\<close>

theorem comments_bucketed_once_in_order:
  assumes "comment_threads_list sv vid = Inr items"
  shows "\<exists>m. get_video_comments_with_sentiments sv vid
                = ([Call_comment_threads_list vid], Inr m) \<and>
              dom m = {''Positive'', ''Negative'', ''Neutral''} \<and>
              (\<forall>l \<in> {''Positive'', ''Negative'', ''Neutral''}.
                 m l = Some (filter (\<lambda>c. fst (analyze_sentiment sv c) = l)
                               (map textOriginal items))) \<and>
              (\<forall>c. fst (analyze_sentiment sv c) \<in> {''Positive'', ''Negative'', ''Neutral''}) \<and>
              length (the (m ''Positive'')) + length (the (m ''Negative'')) +
                length (the (m ''Neutral'')) = length items"
proof -
  have "{''Positive'', ''Negative'', ''Neutral''} \<subseteq> dom empty_sentiments"
    by (simp add: dom_empty_sentiments)
  from bucket_comments_acc [OF this, of sv items]
  obtain m where b: "bucket_comments sv empty_sentiments items = Inr m"
    and f: "\<And>l. m l = map_option
              (\<lambda>b. b @ filter (\<lambda>c. fst (analyze_sentiment sv c) = l) (map textOriginal items))
              (empty_sentiments l)"
    by blast
  have p: "m ''Positive'' = Some (filter (\<lambda>c. fst (analyze_sentiment sv c) = ''Positive'')
              (map textOriginal items))"
    and n: "m ''Negative'' = Some (filter (\<lambda>c. fst (analyze_sentiment sv c) = ''Negative'')
              (map textOriginal items))"
    and u: "m ''Neutral'' = Some (filter (\<lambda>c. fst (analyze_sentiment sv c) = ''Neutral'')
              (map textOriginal items))"
    by (simp_all add: f empty_sentiments_def)
  have d: "dom m = dom empty_sentiments"
    by (auto simp: f dom_def)
  have r: "get_video_comments_with_sentiments sv vid = ([Call_comment_threads_list vid], Inr m)"
    using assms b by (simp add: get_video_comments_with_sentiments_def run_defs)
  have len: "length (the (m ''Positive'')) + length (the (m ''Negative'')) +
                length (the (m ''Neutral'')) = length items"
    using three_filters_length [of sv "map textOriginal items"] by (simp add: p n u)
  show ?thesis
  proof (intro exI [of _ m] conjI ballI allI)
    show "get_video_comments_with_sentiments sv vid = ([Call_comment_threads_list vid], Inr m)"
      by (rule r)
    show "dom m = {''Positive'', ''Negative'', ''Neutral''}"
      using d by (simp add: dom_empty_sentiments)
    show "m l = Some (filter (\<lambda>c. fst (analyze_sentiment sv c) = l) (map textOriginal items))"
      if "l \<in> {''Positive'', ''Negative'', ''Neutral''}" for l
      using that p n u by auto
    show "fst (analyze_sentiment sv c) \<in> {''Positive'', ''Negative'', ''Neutral''}" for c
      by (rule analyze_sentiment_three)
    show "length (the (m ''Positive'')) + length (the (m ''Negative'')) +
                length (the (m ''Neutral'')) = length items"
      by (rule len)
  qed
qed

theorem comments_bucketed_once_in_order_witness:
  "\<exists>m. get_video_comments_with_sentiments demo_services ''dQw4w9WgXcQ''
          = ([Call_comment_threads_list ''dQw4w9WgXcQ''], Inr m) \<and>
        m ''Positive'' = Some [''great'', ''great''] \<and>
        m ''Negative'' = Some [''awful''] \<and>
        m ''Neutral'' = Some [''ok'']"
proof -
  have c: "comment_threads_list demo_services ''dQw4w9WgXcQ'' = Inr
        [\<lparr>textOriginal = ''great''\<rparr>, \<lparr>textOriginal = ''awful''\<rparr>,
         \<lparr>textOriginal = ''ok''\<rparr>, \<lparr>textOriginal = ''great''\<rparr>]"
    by (simp add: demo_services_def)
  have l: "fst (analyze_sentiment demo_services ''great'') = ''Positive''"
          "fst (analyze_sentiment demo_services ''awful'') = ''Negative''"
          "fst (analyze_sentiment demo_services ''ok'') = ''Neutral''"
    by (simp_all add: analyze_sentiment_label demo_services_def)
  from comments_bucketed_once_in_order [OF c]
  obtain m where "get_video_comments_with_sentiments demo_services ''dQw4w9WgXcQ''
          = ([Call_comment_threads_list ''dQw4w9WgXcQ''], Inr m)"
    and "\<forall>l \<in> {''Positive'', ''Negative'', ''Neutral''}.
           m l = Some (filter (\<lambda>c. fst (analyze_sentiment demo_services c) = l)
                   (map textOriginal
                      [\<lparr>textOriginal = ''great''\<rparr>, \<lparr>textOriginal = ''awful''\<rparr>,
                       \<lparr>textOriginal = ''ok''\<rparr>, \<lparr>textOriginal = ''great''\<rparr>]))"
    by blast
  then show ?thesis
    by (intro exI [of _ m]) (simp add: l)
qed

section \<open>Keywords\<close>

lemma py_slice_to_nonneg: "0 \<le> n \<Longrightarrow> py_slice_to xs n = take (nat n) xs"
  by (simp add: py_slice_to_def)

lemma keyword_texts_flags:
  "k \<in> set (keyword_texts doc) \<Longrightarrow> \<exists>t\<in>set doc. tok_text t = k \<and> is_alpha t \<and> \<not> is_stop t"
  by (auto simp: keyword_texts_def)

lemma distinct_list_of_set: "distinct (list_of_set rank xs)"
  by (simp add: list_of_set_def)

lemma set_list_of_set: "set (list_of_set rank xs) = set xs"
  by (simp add: list_of_set_def)

lemma length_list_of_set: "length (list_of_set rank xs) = card (set xs)"
  using distinct_card [OF distinct_list_of_set, of rank xs]
  by (simp add: set_list_of_set)

text \<open>
  Claim C7. For every text and every requested maximum count, \<open>extract_keywords\<close> returns
  at most that many tokens, without repetition, each the text of a token that the NLP
  collaborator flags as alphabetic and not a stopword. The repetitions are removed before
  the list is cut: the result is the first \<open>n\<close> of the distinct keywords, so it has \<open>n\<close>
  of them whenever there are that many. A count is not negative.
\<close>

theorem keywords_bounded_distinct_filtered:
  assumes "0 \<le> n" and "nlp sv txt = Inr doc"
  shows "\<exists>ks. extract_keywords sv txt n = Inr ks \<and>
           int (length ks) \<le> n \<and>
           distinct ks \<and>
           (\<forall>k\<in>set ks. \<exists>t\<in>set doc. tok_text t = k \<and> is_alpha t \<and> \<not> is_stop t) \<and>
           ks = take (nat n) (list_of_set (hash_rank sv) (keyword_texts doc)) \<and>
           length ks = min (nat n) (card (set (keyword_texts doc)))"
proof -
  let ?all = "list_of_set (hash_rank sv) (keyword_texts doc)"
  let ?ks = "take (nat n) ?all"
  have r: "extract_keywords sv txt n = Inr ?ks"
    using assms by (simp add: extract_keywords_def py_slice_to_nonneg)
  have len: "int (length ?ks) \<le> n"
    using assms(1) by simp
  have dist: "distinct ?ks"
    by (simp add: distinct_list_of_set)
  have flags: "\<forall>k\<in>set ?ks. \<exists>t\<in>set doc. tok_text t = k \<and> is_alpha t \<and> \<not> is_stop t"
  proof
    fix k assume "k \<in> set ?ks"
    then have "k \<in> set ?all" by (rule in_set_takeD)
    then have "k \<in> set (keyword_texts doc)" by (simp add: set_list_of_set)
    then show "\<exists>t\<in>set doc. tok_text t = k \<and> is_alpha t \<and> \<not> is_stop t"
      by (rule keyword_texts_flags)
  qed
  have cnt: "length ?ks = min (nat n) (card (set (keyword_texts doc)))"
    by (simp add: length_list_of_set)
  from r len dist flags cnt show ?thesis by blast
qed

theorem keywords_bounded_distinct_filtered_witness:
  "extract_keywords demo_services ''hello the world 42 hello'' 10 = Inr [''world'', ''hello''] \<and>
   extract_keywords demo_services ''hello the world 42 hello'' 1 = Inr [''world'']"
proof -
  let ?doc = "[\<lparr>tok_text = ''hello'', is_alpha = True, is_stop = False\<rparr>,
         \<lparr>tok_text = ''the'', is_alpha = True, is_stop = True\<rparr>,
         \<lparr>tok_text = ''world'', is_alpha = True, is_stop = False\<rparr>,
         \<lparr>tok_text = ''42'', is_alpha = False, is_stop = False\<rparr>,
         \<lparr>tok_text = ''hello'', is_alpha = True, is_stop = False\<rparr>]"
  have d: "nlp demo_services ''hello the world 42 hello'' = Inr ?doc"
    by (simp add: demo_services_def)
  have v: "list_of_set (hash_rank demo_services) (keyword_texts ?doc) = [''world'', ''hello'']"
    by (simp add: demo_services_def keyword_texts_def list_of_set_def)
  have "(0::int) \<le> 10"
    by simp
  from keywords_bounded_distinct_filtered [OF this d]
  have "extract_keywords demo_services ''hello the world 42 hello'' 10
          = Inr (take (nat 10) (list_of_set (hash_rank demo_services) (keyword_texts ?doc)))"
    by blast
  then have a: "extract_keywords demo_services ''hello the world 42 hello'' 10
                  = Inr [''world'', ''hello'']"
    unfolding v by simp
  have "(0::int) \<le> 1"
    by simp
  from keywords_bounded_distinct_filtered [OF this d]
  have "extract_keywords demo_services ''hello the world 42 hello'' 1
          = Inr (take (nat 1) (list_of_set (hash_rank demo_services) (keyword_texts ?doc)))"
    by blast
  then have b: "extract_keywords demo_services ''hello the world 42 hello'' 1 = Inr [''world'']"
    unfolding v by simp
  from a b show ?thesis by (intro conjI)
qed

section \<open>Video details\<close>

lemma get_video_details_none:
  "videos_list sv vid = Inr [] \<Longrightarrow> get_video_details sv vid = ([Call_videos_list vid], Inr None)"
  by (simp add: get_video_details_def run_defs)

lemma build_details_defaults:
  assumes "build_details item = Inr d"
  shows "(statistics item ''viewCount'' = None \<longrightarrow> views d = 0) \<and>
         (statistics item ''likeCount'' = None \<longrightarrow> likes d = 0) \<and>
         (statistics item ''dislikeCount'' = None \<longrightarrow> dislikes d = 0) \<and>
         (statistics item ''commentCount'' = None \<longrightarrow> comments d = 0)"
  using assms
  by (auto simp: build_details_def stat_or_zero_def Let_def split: sum.splits option.splits)

lemma get_video_details_some:
  assumes "snd (get_video_details sv vid) = Inr (Some d)"
  shows "\<exists>item rest. videos_list sv vid = Inr (item # rest) \<and> build_details item = Inr d"
proof (cases "videos_list sv vid")
  case (Inl e)
  with assms show ?thesis
    by (simp add: get_video_details_def run_defs)
next
  case (Inr items)
  with assms show ?thesis
    by (cases items; cases "build_details (hd items)")
       (simp_all add: get_video_details_def run_defs)
qed

lemma get_video_details_pinned:
  assumes "videos_list sv vid = Inr (item # rest)"
    and "snippet item ''title'' = Some t"
    and "snippet item ''channelTitle'' = Some ct"
    and "snippet item ''channelId'' = Some ci"
    and "statistics item ''viewCount'' \<in> {None, Some (Inr v)}"
    and "statistics item ''likeCount'' \<in> {None, Some (Inr l)}"
    and "statistics item ''dislikeCount'' \<in> {None, Some (Inr dl)}"
    and "statistics item ''commentCount'' \<in> {None, Some (Inr c)}"
  shows "get_video_details sv vid =
           ([Call_videos_list vid],
            Inr (Some \<lparr>title = t, channel_title = ct,
                       views = (if statistics item ''viewCount'' = None then 0 else v),
                       likes = (if statistics item ''likeCount'' = None then 0 else l),
                       dislikes = (if statistics item ''dislikeCount'' = None then 0 else dl),
                       comments = (if statistics item ''commentCount'' = None then 0 else c),
                       channel_id = ci\<rparr>))"
proof -
  have sv: "stat_or_zero (statistics item) ''viewCount''
              = Inr (if statistics item ''viewCount'' = None then 0 else v)"
    using assms(5) by (auto simp: stat_or_zero_def)
  have sl: "stat_or_zero (statistics item) ''likeCount''
              = Inr (if statistics item ''likeCount'' = None then 0 else l)"
    using assms(6) by (auto simp: stat_or_zero_def)
  have sd: "stat_or_zero (statistics item) ''dislikeCount''
              = Inr (if statistics item ''dislikeCount'' = None then 0 else dl)"
    using assms(7) by (auto simp: stat_or_zero_def)
  have sc: "stat_or_zero (statistics item) ''commentCount''
              = Inr (if statistics item ''commentCount'' = None then 0 else c)"
    using assms(8) by (auto simp: stat_or_zero_def)
  have "build_details item =
          Inr \<lparr>title = t, channel_title = ct,
               views = (if statistics item ''viewCount'' = None then 0 else v),
               likes = (if statistics item ''likeCount'' = None then 0 else l),
               dislikes = (if statistics item ''dislikeCount'' = None then 0 else dl),
               comments = (if statistics item ''commentCount'' = None then 0 else c),
               channel_id = ci\<rparr>"
    unfolding build_details_def Let_def sv sl sd sc
    by (simp add: dict_getitem_def assms(2,3,4))
  with assms(1) show ?thesis
    by (simp add: get_video_details_def run_defs)
qed

text \<open>
  Claim C8. When the platform answers with no items, \<open>get_video_details\<close> returns
  \<^verbatim>\<open>None\<close> (the "not found" result) and raises nothing. When the first item of the
  answer has its title, channel title and channel id, and every statistic it carries is
  a number, \<open>get_video_details\<close> returns a record in which each of the four statistics
  (views, likes, dislikes, comments) is the number the item carries, and exactly \<open>0\<close>
  where the item carries none. In every record returned at all, a statistic that the
  first item does not carry is \<open>0\<close>.
\<close>

theorem video_details_not_found_and_zero_defaults:
  "(videos_list sv vid = Inr [] \<longrightarrow>
      get_video_details sv vid = ([Call_videos_list vid], Inr None)) \<and>
   (videos_list sv vid = Inr (item # rest) \<and>
    snippet item ''title'' = Some t \<and>
    snippet item ''channelTitle'' = Some ct \<and>
    snippet item ''channelId'' = Some ci \<and>
    statistics item ''viewCount'' \<in> {None, Some (Inr v)} \<and>
    statistics item ''likeCount'' \<in> {None, Some (Inr l)} \<and>
    statistics item ''dislikeCount'' \<in> {None, Some (Inr dl)} \<and>
    statistics item ''commentCount'' \<in> {None, Some (Inr c)} \<longrightarrow>
      get_video_details sv vid =
        ([Call_videos_list vid],
         Inr (Some \<lparr>title = t, channel_title = ct,
                    views = (if statistics item ''viewCount'' = None then 0 else v),
                    likes = (if statistics item ''likeCount'' = None then 0 else l),
                    dislikes = (if statistics item ''dislikeCount'' = None then 0 else dl),
                    comments = (if statistics item ''commentCount'' = None then 0 else c),
                    channel_id = ci\<rparr>))) \<and>
   (videos_list sv vid = Inr (item # rest) \<and>
    snd (get_video_details sv vid) = Inr (Some d) \<longrightarrow>
      (statistics item ''viewCount'' = None \<longrightarrow> views d = 0) \<and>
      (statistics item ''likeCount'' = None \<longrightarrow> likes d = 0) \<and>
      (statistics item ''dislikeCount'' = None \<longrightarrow> dislikes d = 0) \<and>
      (statistics item ''commentCount'' = None \<longrightarrow> comments d = 0))"
proof (intro conjI)
  show "videos_list sv vid = Inr [] \<longrightarrow>
      get_video_details sv vid = ([Call_videos_list vid], Inr None)"
    by (simp add: get_video_details_none)
  show "videos_list sv vid = Inr (item # rest) \<and>
    snippet item ''title'' = Some t \<and>
    snippet item ''channelTitle'' = Some ct \<and>
    snippet item ''channelId'' = Some ci \<and>
    statistics item ''viewCount'' \<in> {None, Some (Inr v)} \<and>
    statistics item ''likeCount'' \<in> {None, Some (Inr l)} \<and>
    statistics item ''dislikeCount'' \<in> {None, Some (Inr dl)} \<and>
    statistics item ''commentCount'' \<in> {None, Some (Inr c)} \<longrightarrow>
      get_video_details sv vid =
        ([Call_videos_list vid],
         Inr (Some \<lparr>title = t, channel_title = ct,
                    views = (if statistics item ''viewCount'' = None then 0 else v),
                    likes = (if statistics item ''likeCount'' = None then 0 else l),
                    dislikes = (if statistics item ''dislikeCount'' = None then 0 else dl),
                    comments = (if statistics item ''commentCount'' = None then 0 else c),
                    channel_id = ci\<rparr>))"
  proof
    assume h: "videos_list sv vid = Inr (item # rest) \<and>
      snippet item ''title'' = Some t \<and>
      snippet item ''channelTitle'' = Some ct \<and>
      snippet item ''channelId'' = Some ci \<and>
      statistics item ''viewCount'' \<in> {None, Some (Inr v)} \<and>
      statistics item ''likeCount'' \<in> {None, Some (Inr l)} \<and>
      statistics item ''dislikeCount'' \<in> {None, Some (Inr dl)} \<and>
      statistics item ''commentCount'' \<in> {None, Some (Inr c)}"
    show "get_video_details sv vid =
        ([Call_videos_list vid],
         Inr (Some \<lparr>title = t, channel_title = ct,
                    views = (if statistics item ''viewCount'' = None then 0 else v),
                    likes = (if statistics item ''likeCount'' = None then 0 else l),
                    dislikes = (if statistics item ''dislikeCount'' = None then 0 else dl),
                    comments = (if statistics item ''commentCount'' = None then 0 else c),
                    channel_id = ci\<rparr>))"
      by (rule get_video_details_pinned) (use h in blast)+
  qed
  show "videos_list sv vid = Inr (item # rest) \<and>
    snd (get_video_details sv vid) = Inr (Some d) \<longrightarrow>
      (statistics item ''viewCount'' = None \<longrightarrow> views d = 0) \<and>
      (statistics item ''likeCount'' = None \<longrightarrow> likes d = 0) \<and>
      (statistics item ''dislikeCount'' = None \<longrightarrow> dislikes d = 0) \<and>
      (statistics item ''commentCount'' = None \<longrightarrow> comments d = 0)"
  proof
    assume h: "videos_list sv vid = Inr (item # rest) \<and>
      snd (get_video_details sv vid) = Inr (Some d)"
    then obtain item' rest' where "videos_list sv vid = Inr (item' # rest')"
      and "build_details item' = Inr d"
      using get_video_details_some by blast
    with h have "build_details item = Inr d"
      by simp
    then show "(statistics item ''viewCount'' = None \<longrightarrow> views d = 0) \<and>
      (statistics item ''likeCount'' = None \<longrightarrow> likes d = 0) \<and>
      (statistics item ''dislikeCount'' = None \<longrightarrow> dislikes d = 0) \<and>
      (statistics item ''commentCount'' = None \<longrightarrow> comments d = 0)"
      by (rule build_details_defaults)
  qed
qed

lemma demo_details:
  "get_video_details demo_services ''dQw4w9WgXcQ'' =
     ([Call_videos_list ''dQw4w9WgXcQ''],
      Inr (Some \<lparr>title = ''Demo'', channel_title = ''Chan'', views = 1500, likes = 0,
                 dislikes = 0, comments = 3, channel_id = ''UC1''\<rparr>))"
  by (simp add: get_video_details_def run_defs demo_services_def demo_item_def
      build_details_def stat_or_zero_def dict_getitem_def)

theorem video_details_not_found_and_zero_defaults_witness:
  "get_video_details no_such_video ''dQw4w9WgXcQ'' = ([Call_videos_list ''dQw4w9WgXcQ''], Inr None) \<and>
   get_video_details no_statistics ''dQw4w9WgXcQ'' =
     ([Call_videos_list ''dQw4w9WgXcQ''],
      Inr (Some \<lparr>title = ''Demo'', channel_title = ''Chan'', views = 0, likes = 0,
                 dislikes = 0, comments = 0, channel_id = ''UC1''\<rparr>)) \<and>
   get_video_details demo_services ''dQw4w9WgXcQ'' =
     ([Call_videos_list ''dQw4w9WgXcQ''],
      Inr (Some \<lparr>title = ''Demo'', channel_title = ''Chan'', views = 1500, likes = 0,
                 dislikes = 0, comments = 3, channel_id = ''UC1''\<rparr>)) \<and>
   statistics demo_item ''likeCount'' = None \<and>
   statistics demo_item ''dislikeCount'' = None \<and>
   likes \<lparr>title = ''Demo'', channel_title = ''Chan'', views = 1500, likes = 0,
          dislikes = 0, comments = 3, channel_id = ''UC1''\<rparr> = 0"
proof -
  note t = video_details_not_found_and_zero_defaults
  have e: "videos_list no_such_video ''dQw4w9WgXcQ'' = Inr []"
    by (simp add: no_such_video_def)
  have a: "get_video_details no_such_video ''dQw4w9WgXcQ''
             = ([Call_videos_list ''dQw4w9WgXcQ''], Inr None)"
    using t [of no_such_video "''dQw4w9WgXcQ''", THEN conjunct1] e
    by (rule mp)
  let ?bare = "demo_item\<lparr>statistics := Map.empty\<rparr>"
  have hb: "videos_list no_statistics ''dQw4w9WgXcQ'' = Inr (?bare # []) \<and>
      snippet ?bare ''title'' = Some ''Demo'' \<and>
      snippet ?bare ''channelTitle'' = Some ''Chan'' \<and>
      snippet ?bare ''channelId'' = Some ''UC1'' \<and>
      statistics ?bare ''viewCount'' \<in> {None, Some (Inr 0)} \<and>
      statistics ?bare ''likeCount'' \<in> {None, Some (Inr 0)} \<and>
      statistics ?bare ''dislikeCount'' \<in> {None, Some (Inr 0)} \<and>
      statistics ?bare ''commentCount'' \<in> {None, Some (Inr 0)}"
    by (simp add: no_statistics_def demo_item_def)
  have b: "get_video_details no_statistics ''dQw4w9WgXcQ'' =
     ([Call_videos_list ''dQw4w9WgXcQ''],
      Inr (Some \<lparr>title = ''Demo'', channel_title = ''Chan'', views = 0, likes = 0,
                 dislikes = 0, comments = 0, channel_id = ''UC1''\<rparr>))"
    using t [THEN conjunct2, THEN conjunct1, rule_format, OF hb]
    by simp
  have hd: "videos_list demo_services ''dQw4w9WgXcQ'' = Inr (demo_item # []) \<and>
      snippet demo_item ''title'' = Some ''Demo'' \<and>
      snippet demo_item ''channelTitle'' = Some ''Chan'' \<and>
      snippet demo_item ''channelId'' = Some ''UC1'' \<and>
      statistics demo_item ''viewCount'' \<in> {None, Some (Inr 1500)} \<and>
      statistics demo_item ''likeCount'' \<in> {None, Some (Inr 0)} \<and>
      statistics demo_item ''dislikeCount'' \<in> {None, Some (Inr 0)} \<and>
      statistics demo_item ''commentCount'' \<in> {None, Some (Inr 3)}"
    by (simp add: demo_services_def demo_item_def)
  have c: "get_video_details demo_services ''dQw4w9WgXcQ'' =
     ([Call_videos_list ''dQw4w9WgXcQ''],
      Inr (Some \<lparr>title = ''Demo'', channel_title = ''Chan'', views = 1500, likes = 0,
                 dislikes = 0, comments = 3, channel_id = ''UC1''\<rparr>))"
    using t [THEN conjunct2, THEN conjunct1, rule_format, OF hd]
    by (simp add: demo_item_def)
  have l: "statistics demo_item ''likeCount'' = None"
    and k: "statistics demo_item ''dislikeCount'' = None"
    by (simp_all add: demo_item_def)
  have s: "videos_list demo_services ''dQw4w9WgXcQ'' = Inr (demo_item # []) \<and>
      snd (get_video_details demo_services ''dQw4w9WgXcQ'') =
        Inr (Some \<lparr>title = ''Demo'', channel_title = ''Chan'', views = 1500, likes = 0,
                   dislikes = 0, comments = 3, channel_id = ''UC1''\<rparr>)"
    using hd c by simp
  have z: "likes \<lparr>title = ''Demo'', channel_title = ''Chan'', views = 1500, likes = 0,
          dislikes = 0, comments = 3, channel_id = ''UC1''\<rparr> = 0"
    using t [THEN conjunct2, THEN conjunct2, rule_format, OF s, THEN conjunct2, THEN conjunct1] l
    by (rule mp)
  from a b c l k z show ?thesis
    by (intro conjI)
qed

section \<open>The scripts as a whole\<close>

lemma short_url_no_id:
  "split_video_id short_url = Inl (Exn IndexError ''list index out of range'')"
  by code_simp

lemma short_url_not_empty: "short_url \<noteq> []"
  by (simp add: short_url_def)







text \<open>
  Claim C5. On a link without \<open>=\<close>, here a short link, \<^verbatim>\<open>app5.py\<close> evaluates
  \<^verbatim>\<open>youtube_link.split("=")[1]\<close> outside any \<^verbatim>\<open>try\<close>: the run ends with the
  \<^verbatim>\<open>IndexError\<close> before the button is reached, whatever the services answer. On the same
  link \<^verbatim>\<open>app.py\<close> catches the error at that place and shows the invalid-link message.
  Inside \<open>extract_transcript_details\<close> of \<^verbatim>\<open>app5.py\<close> the error is caught and shown as
  an unexpected error.
\<close>

theorem app5_thumbnail_index_error_unhandled:
  "app5_script sv short_url clicked =
     ([St_title ''YouTube Video Analysis Tool'', St_text_input ''Enter YouTube Video Link:''],
      Inl (Exn IndexError ''list index out of range'')) \<and>
   app_script sv short_url False =
     ([St_title ''YouTube Transcript to Detailed Notes Converter'',
       St_text_input ''Enter YouTube Video Link:'',
       St_error ''Invalid YouTube link. Please provide a valid URL.'',
       St_button ''Get Detailed Notes''],
      Inr ()) \<and>
   extract_transcript_details sv short_url =
     ([St_error
         ''An unexpected error occurred while fetching the transcript: list index out of range''],
      Inr None)"
proof (intro conjI)
  show "app5_script sv short_url clicked =
     ([St_title ''YouTube Video Analysis Tool'', St_text_input ''Enter YouTube Video Link:''],
      Inl (Exn IndexError ''list index out of range''))"
    by (simp add: app5_script_def app5_thumbnail_def short_url_no_id short_url_not_empty
        run_defs)
  show "app_script sv short_url False =
     ([St_title ''YouTube Transcript to Detailed Notes Converter'',
       St_text_input ''Enter YouTube Video Link:'',
       St_error ''Invalid YouTube link. Please provide a valid URL.'',
       St_button ''Get Detailed Notes''],
      Inr ())"
    by (simp add: app_script_def app_thumbnail_def short_url_no_id short_url_not_empty
        run_defs)
  show "extract_transcript_details sv short_url =
     ([St_error
         ''An unexpected error occurred while fetching the transcript: list index out of range''],
      Inr None)"
    by (simp add: extract_transcript_details_def transcript_handlers_def short_url_no_id
        run_defs)
qed




section \<open>What is sent to the summarizer\<close>

lemma payloads_append: "payloads (xs @ ys) = payloads xs @ payloads ys"
  by (induction xs rule: payloads.induct) simp_all

lemma payloads_and_then:
  "payloads (fst (and_then m f)) =
     payloads (fst m) @ (case snd m of Inl e \<Rightarrow> [] | Inr x \<Rightarrow> payloads (fst (f x)))"
  by (cases m; cases "snd m") (simp_all add: payloads_append)

lemma payloads_try_except:
  "payloads (fst (try_except m h)) =
     payloads (fst m) @ (case snd m of Inl e \<Rightarrow> payloads (fst (h e)) | Inr x \<Rightarrow> [])"
  by (cases m; cases "snd m") (simp_all add: payloads_append)

lemma payloads_writes:
  "payloads (map (\<lambda>(idx, comment). St_write (g idx comment)) xs) = []"
  by (induction xs) auto

lemma payloads_extract: "payloads (fst (extract_transcript_details sv url)) = []"
  by (simp add: extract_transcript_details_def transcript_handlers_def read_var_def run_defs
      payloads_and_then payloads_try_except split: sum.splits option.splits)

lemma payloads_display: "payloads (fst (display_results d c)) = []"
  by (simp add: display_results_def subscript_def dict_getitem_def run_defs
      payloads_and_then payloads_writes split: sum.splits option.splits)

lemma payloads_details: "payloads (fst (details_and_comments sv v)) = []"
  by (simp add: details_and_comments_def get_video_details_def
      get_video_comments_with_sentiments_def read_var_def run_defs
      payloads_and_then payloads_display split: sum.splits option.splits list.splits)

lemma payloads_summary:
  assumes "extract_transcript_details sv link = (evs, Inr (Some t))" and "t \<noteq> []"
  shows "payloads (fst (summary_and_keywords sv link)) = [prompt @ t]"
proof -
  have "payloads evs = []"
    using payloads_extract [of sv link] assms(1) by simp
  with assms show ?thesis
    by (simp add: summary_and_keywords_def generate_gemini_content_def run_defs
        payloads_and_then payloads_append split: sum.splits)
qed

text \<open>
  Claim C2. \<open>generate_gemini_content\<close> sends to the summarization service the prompt
  followed by the transcript text, unchanged; for the segments \<open>hello\<close>, \<open>world\<close> and the
  prompt \<open>Summarize: \<close> that is \<open>Summarize: hello world\<close>. In a run of the button
  handler in which the transcript was retrieved and is not empty, exactly one payload is
  sent, and it is the script's fixed prompt followed by the transcript.
\<close>

theorem summarizer_payload_is_prompt_then_transcript:
  "generate_gemini_content sv (join_transcript segs) p =
     ([Call_generate_content (p @ join_transcript segs)],
      generate_content sv (p @ join_transcript segs)) \<and>
   fst (generate_gemini_content sv (join_transcript [seg ''hello'', seg ''world''])
          ''Summarize: '') = [Call_generate_content ''Summarize: hello world''] \<and>
   (extract_transcript_details sv link = (evs, Inr (Some t)) \<and> t \<noteq> [] \<longrightarrow>
      payloads (fst (analyze_video sv link v)) = [prompt @ t])"
proof (intro conjI impI)
  show "generate_gemini_content sv (join_transcript segs) p =
     ([Call_generate_content (p @ join_transcript segs)],
      generate_content sv (p @ join_transcript segs))"
    by (simp add: generate_gemini_content_def run_defs)
  show "fst (generate_gemini_content sv (join_transcript [seg ''hello'', seg ''world''])
          ''Summarize: '') = [Call_generate_content ''Summarize: hello world'']"
    by (simp add: generate_gemini_content_def run_defs join_transcript_def seg_def)
next
  assume "extract_transcript_details sv link = (evs, Inr (Some t)) \<and> t \<noteq> []"
  then have "payloads (fst (summary_and_keywords sv link)) = [prompt @ t]"
    by (simp add: payloads_summary)
  then show "payloads (fst (analyze_video sv link v)) = [prompt @ t]"
    by (simp add: analyze_video_def payloads_and_then payloads_details split: sum.splits)
qed

theorem summarizer_payload_is_prompt_then_transcript_witness:
  "extract_transcript_details demo_services demo_url =
     ([Call_get_transcript ''dQw4w9WgXcQ'' (Some [''en''])], Inr (Some ''hello world'')) \<and>
   payloads (fst (analyze_video demo_services demo_url (Some ''dQw4w9WgXcQ'')))
     = [prompt @ ''hello world'']"
proof -
  have x: "extract_transcript_details demo_services demo_url =
     ([Call_get_transcript ''dQw4w9WgXcQ'' (Some [''en''])], Inr (Some ''hello world''))"
    by code_simp
  have n: "''hello world'' \<noteq> []"
    by simp
  have "payloads (fst (analyze_video demo_services demo_url (Some ''dQw4w9WgXcQ'')))
     = [prompt @ ''hello world'']"
    using summarizer_payload_is_prompt_then_transcript
      [THEN conjunct2, THEN conjunct2, rule_format, OF conjI [OF x n]] .
  with x show ?thesis by (intro conjI)
qed

text \<open>
  The same holds for every link that is not empty and has no \<open>=\<close>: \<^verbatim>\<open>app5.py\<close> ends
  with the \<^verbatim>\<open>IndexError\<close> where \<^verbatim>\<open>app.py\<close> shows its message and goes on.
\<close>

lemma app5_script_link_without_eq:
  assumes "link \<noteq> []" and "CHR ''='' \<notin> set link"
  shows "app5_script sv link clicked =
           ([St_title ''YouTube Video Analysis Tool'',
             St_text_input ''Enter YouTube Video Link:''],
            Inl (Exn IndexError ''list index out of range''))"
    and "app_thumbnail link =
           ([St_error ''Invalid YouTube link. Please provide a valid URL.''], Inr ())"
  using assms
  by (simp_all add: app5_script_def app5_thumbnail_def app_thumbnail_def split_video_id_def
      py_split_no_second run_defs)

end
